theory Spec2Isabelle
  imports Main
begin

section \<open>Data model\<close>

text \<open>
  The \<^verbatim>\<open>User\<close> interface of the front end (\<^verbatim>\<open>id\<close>, \<^verbatim>\<open>email\<close>, \<^verbatim>\<open>credits\<close>,
  \<^verbatim>\<open>is_admin\<close>). The field \<^verbatim>\<open>id\<close> is called \<open>uid\<close> here, \<open>id\<close> being the
  identity function of HOL.
\<close>

record user_rec =
  uid :: int
  email :: string
  credits :: int
  is_admin :: bool

text \<open>
  A value in a position typed \<^verbatim>\<open>User | null\<close> whose content comes from a response
  (\<^verbatim>\<open>response: any\<close>): the field may be missing (\<^verbatim>\<open>undefined\<close>), \<^verbatim>\<open>null\<close>, or a
  user record.
\<close>

datatype jsuser = Undefined | Null | Rec user_rec

text \<open>
  A token is a string or absent (\<^verbatim>\<open>null\<close> and \<^verbatim>\<open>undefined\<close> are both \<open>None\<close>).
  JavaScript's truthiness test \<^verbatim>\<open>if (token)\<close> / \<^verbatim>\<open>!!token\<close> on such a value fails
  for the absent value and for the empty string.
\<close>

definition truthy :: "string option \<Rightarrow> bool" where
  "truthy t = (case t of None \<Rightarrow> False | Some s \<Rightarrow> s \<noteq> [])"

text \<open>
  The body of a successful \<^verbatim>\<open>/login\<close> or \<^verbatim>\<open>/register\<close> response,
  \<^verbatim>\<open>{token, user}\<close>. The code reads it through \<^verbatim>\<open>any\<close> or an unchecked cast, so
  the token may be missing or empty at run time.
\<close>

record auth_response =
  resp_token :: "string option"
  resp_user :: jsuser

datatype error = Error string | TypeError string | SyntaxError

subsection \<open>Durable storage\<close>

text \<open>
  The text kept under the key \<^verbatim>\<open>'user'\<close>. It is only ever written as
  \<^verbatim>\<open>JSON.stringify(v)\<close> passed to \<^verbatim>\<open>localStorage.setItem\<close>, which stores the JSON
  text of a record, the text \<^verbatim>\<open>null\<close>, or, for \<^verbatim>\<open>undefined\<close> (where
  \<^verbatim>\<open>JSON.stringify\<close> returns \<^verbatim>\<open>undefined\<close> and \<^verbatim>\<open>setItem\<close> coerces it to a
  string), the nine characters \<^verbatim>\<open>undefined\<close>. All three texts are non-empty.
\<close>

datatype user_text = Text_undefined | Text_null | Text_record user_rec

definition JSON_stringify :: "jsuser \<Rightarrow> user_text" where
  "JSON_stringify v = (case v of Undefined \<Rightarrow> Text_undefined | Null \<Rightarrow> Text_null
                       | Rec u \<Rightarrow> Text_record u)"

definition JSON_parse :: "user_text \<Rightarrow> error + jsuser" where
  "JSON_parse t = (case t of Text_undefined \<Rightarrow> Inl SyntaxError | Text_null \<Rightarrow> Inr Null
                   | Text_record u \<Rightarrow> Inr (Rec u))"

text \<open>
  \<^verbatim>\<open>localStorage\<close>, restricted to the two keys the program uses: \<^verbatim>\<open>'token'\<close> and
  \<^verbatim>\<open>'user'\<close>. \<open>None\<close> is a key that is not stored (\<^verbatim>\<open>getItem\<close> returns
  \<^verbatim>\<open>null\<close>).
\<close>

record localStorage =
  token_item :: "string option"
  user_item :: "user_text option"

definition empty_storage :: localStorage where
  "empty_storage = \<lparr>token_item = None, user_item = None\<rparr>"

section \<open>The standalone auth module (frontend/src/auth.ts)\<close>

text \<open>
  \<^verbatim>\<open>saveUser\<close>: \<^verbatim>\<open>if (userData?.token) { setItem('token', ...); setItem('user',
  JSON.stringify(userData.user)) }\<close>. The argument is \<open>None\<close> when the response body
  itself is \<^verbatim>\<open>null\<close> or \<^verbatim>\<open>undefined\<close>.
\<close>

definition saveUser :: "auth_response option \<Rightarrow> localStorage \<Rightarrow> localStorage" where
  "saveUser userData ls =
     (case userData of
        None \<Rightarrow> ls
      | Some r \<Rightarrow>
          if truthy (resp_token r)
          then (case resp_token r of
                  None \<Rightarrow> ls
                | Some t \<Rightarrow> ls\<lparr>token_item := Some t,
                               user_item := Some (JSON_stringify (resp_user r))\<rparr>)
          else ls)"

text \<open>
  \<^verbatim>\<open>getCurrentUser\<close> of auth.ts reads the key \<^verbatim>\<open>'user'\<close> and parses it;
  \<^verbatim>\<open>JSON.parse\<close> throws on a text that is not JSON. (The guard on
  \<^verbatim>\<open>typeof window\<close> never fires in a browser.)
\<close>

definition getCurrentUser :: "localStorage \<Rightarrow> error + jsuser" where
  "getCurrentUser ls = (case user_item ls of None \<Rightarrow> Inr Null | Some t \<Rightarrow> JSON_parse t)"

definition getToken :: "localStorage \<Rightarrow> string option" where
  "getToken ls = token_item ls"

definition isAuthenticated :: "localStorage \<Rightarrow> bool" where
  "isAuthenticated ls = truthy (getToken ls)"

text \<open>\<^verbatim>\<open>isAdmin\<close>: \<^verbatim>\<open>getCurrentUser()?.is_admin === true\<close>.\<close>

definition isAdmin :: "localStorage \<Rightarrow> error + bool" where
  "isAdmin ls =
     (case getCurrentUser ls of
        Inl e \<Rightarrow> Inl e
      | Inr u \<Rightarrow> Inr (case u of Rec r \<Rightarrow> is_admin r | _ \<Rightarrow> False))"

subsection \<open>The fetch wrapper (apiRequest)\<close>

text \<open>
  What a \<^verbatim>\<open>fetch\<close> call can come back with: the transport fails (\<^verbatim>\<open>fetch\<close>
  rejects with a \<^verbatim>\<open>TypeError\<close>), the response is not \<^verbatim>\<open>ok\<close> and its JSON body
  has or lacks a \<^verbatim>\<open>message\<close>, or the response is \<^verbatim>\<open>ok\<close> with a body.
\<close>

datatype 'a fetch_outcome = NetworkFailure string | NotOk "string option" | Ok 'a

text \<open>\<^verbatim>\<open>msg || fallback\<close> on an optional string.\<close>

definition or_else :: "string option \<Rightarrow> string \<Rightarrow> string" where
  "or_else m fallback = (case m of None \<Rightarrow> fallback | Some s \<Rightarrow> if s = [] then fallback else s)"

text \<open>
  The headers \<^verbatim>\<open>apiRequest\<close> sends: the content type, then
  \<^verbatim>\<open>Authorization: Bearer\<close> followed by the token, when \<^verbatim>\<open>localStorage\<close> holds a truthy token,
  then whatever the caller passed in \<^verbatim>\<open>options.headers\<close> (later entries win).
\<close>

definition apiRequest_headers :: "localStorage \<Rightarrow> (string \<rightharpoonup> string) \<Rightarrow> (string \<rightharpoonup> string)" where
  "apiRequest_headers ls options_headers =
     ([''Content-Type'' \<mapsto> ''application/json'']
        ++ (case token_item ls of
              None \<Rightarrow> Map.empty
            | Some t \<Rightarrow> if t = [] then Map.empty else [''Authorization'' \<mapsto> ''Bearer '' @ t])
        ++ options_headers)"

definition apiRequest :: "'a fetch_outcome \<Rightarrow> error + 'a" where
  "apiRequest res =
     (case res of
        NetworkFailure m \<Rightarrow> Inl (TypeError m)
      | NotOk m \<Rightarrow> Inl (Error (or_else m ''Something went wrong''))
      | Ok body \<Rightarrow> Inr body)"

text \<open>
  \<^verbatim>\<open>loginUser\<close> and \<^verbatim>\<open>registerUser\<close>: await the request (a rejection propagates, and
  nothing is saved), \<^verbatim>\<open>saveUser(response)\<close>, return \<^verbatim>\<open>response.user\<close>. Reading
  \<^verbatim>\<open>.user\<close> of a \<^verbatim>\<open>null\<close> body throws a \<^verbatim>\<open>TypeError\<close>. The two functions differ
  only in the endpoint they post to.
\<close>

definition loginUser ::
  "string \<Rightarrow> string \<Rightarrow> auth_response option fetch_outcome \<Rightarrow> localStorage
     \<Rightarrow> localStorage \<times> (error + jsuser)" where
  "loginUser em password res ls =
     (case apiRequest res of
        Inl e \<Rightarrow> (ls, Inl e)
      | Inr response \<Rightarrow>
          (saveUser response ls,
           case response of
             None \<Rightarrow> Inl (TypeError ''Cannot read properties of null'')
           | Some r \<Rightarrow> Inr (resp_user r)))"

definition registerUser ::
  "string \<Rightarrow> string \<Rightarrow> auth_response option fetch_outcome \<Rightarrow> localStorage
     \<Rightarrow> localStorage \<times> (error + jsuser)" where
  "registerUser em password res ls =
     (case apiRequest res of
        Inl e \<Rightarrow> (ls, Inl e)
      | Inr response \<Rightarrow>
          (saveUser response ls,
           case response of
             None \<Rightarrow> Inl (TypeError ''Cannot read properties of null'')
           | Some r \<Rightarrow> Inr (resp_user r)))"

section \<open>The context-based session (contexts/AuthContext)\<close>

subsection \<open>The HTTP client (api/auth.ts over axios)\<close>

text \<open>
  A rejected axios call carries an error whose \<^verbatim>\<open>response\<close> is missing (transport
  failure) or has a body that has or lacks a \<^verbatim>\<open>message\<close>. The session reads it as
  \<^verbatim>\<open>err.response?.data?.message\<close>.
\<close>

datatype axios_error = NoResponse | ErrorResponse "string option"

definition response_data_message :: "axios_error \<Rightarrow> string option" where
  "response_data_message e = (case e of NoResponse \<Rightarrow> None | ErrorResponse m \<Rightarrow> m)"

datatype 'a axios_outcome = Fulfilled 'a | Failed axios_error

record request =
  url :: string
  authorization :: "string option"

definition API_URL :: string where
  "API_URL = ''https://universar-bussinesss-automation.onrender.com/api/auth''"

text \<open>
  The request \<^verbatim>\<open>getCurrentUser(token)\<close> of api/auth.ts sends: \<^verbatim>\<open>GET /me\<close> with the
  header \<^verbatim>\<open>Authorization: Bearer\<close> and the token it was given.
\<close>

definition getCurrentUser_request :: "string \<Rightarrow> request" where
  "getCurrentUser_request t = \<lparr>url = API_URL @ ''/me'', authorization = Some (''Bearer '' @ t)\<rparr>"

subsection \<open>State\<close>

text \<open>
  The four \<^verbatim>\<open>useState\<close> cells of \<^verbatim>\<open>AuthProvider\<close>, together with what its effects
  and handlers reach outside the component: \<^verbatim>\<open>localStorage\<close>, the default
  \<^verbatim>\<open>Authorization\<close> header of axios, the profile requests sent so far, how many of
  them are still in flight, and the current route.
\<close>

record world =
  user :: jsuser
  token :: "string option"
  loading :: bool
  error :: "string option"
  storage :: localStorage
  axios_authorization :: "string option"
  requests :: "request list"
  pending :: nat
  location :: string

text \<open>
  The initial render: \<^verbatim>\<open>user = null\<close>, \<^verbatim>\<open>token = localStorage.getItem('token')\<close>,
  \<^verbatim>\<open>loading = true\<close>, \<^verbatim>\<open>error = null\<close>, in a freshly loaded page (no default
  header, nothing sent).
\<close>

definition initial :: "localStorage \<Rightarrow> string \<Rightarrow> world" where
  "initial ls path =
     \<lparr>user = Null, token = token_item ls, loading = True, error = None,
      storage = ls, axios_authorization = None, requests = [], pending = 0,
      location = path\<rparr>"

text \<open>
  The first effect (commented as setting up the axios defaults): with a truthy token,
  store it and set the default header; otherwise delete the header and remove the stored token.
\<close>

definition axios_defaults_effect :: "world \<Rightarrow> world" where
  "axios_defaults_effect w =
     (case token w of
        None \<Rightarrow> w\<lparr>axios_authorization := None, storage := (storage w)\<lparr>token_item := None\<rparr>\<rparr>
      | Some t \<Rightarrow>
          if t \<noteq> []
          then w\<lparr>storage := (storage w)\<lparr>token_item := Some t\<rparr>,
                 axios_authorization := Some (''Bearer '' @ t)\<rparr>
          else w\<lparr>axios_authorization := None, storage := (storage w)\<lparr>token_item := None\<rparr>\<rparr>)"

text \<open>
  The second effect calls \<^verbatim>\<open>loadUser\<close>. Up to its \<^verbatim>\<open>await\<close>: with a truthy token
  the profile request goes out and the function suspends; otherwise it sets
  \<^verbatim>\<open>loading\<close> to false at once.
\<close>

definition loadUser :: "world \<Rightarrow> world" where
  "loadUser w =
     (case token w of
        None \<Rightarrow> w\<lparr>loading := False\<rparr>
      | Some t \<Rightarrow>
          if t \<noteq> []
          then w\<lparr>requests := requests w @ [getCurrentUser_request t], pending := pending w + 1\<rparr>
          else w\<lparr>loading := False\<rparr>)"

text \<open>
  Both effects depend on \<^verbatim>\<open>[token]\<close>: React runs them, in the order they are declared,
  after the first render and after each render in which \<^verbatim>\<open>token\<close> differs from its
  value at the previous render. \<open>commit prev w\<close> is the render of the state \<open>w\<close>
  when the previous render had the token \<open>prev\<close>. (React would also re-run them when
  the token goes from \<^verbatim>\<open>null\<close> to \<^verbatim>\<open>undefined\<close>, which are one value here: the
  effects of a falsy token after a falsy token delete the header and the stored token
  that the earlier run had deleted, and set \<^verbatim>\<open>loading\<close> to false.)
\<close>

definition commit :: "string option \<Rightarrow> world \<Rightarrow> world" where
  "commit prev w = (if token w = prev then w else loadUser (axios_defaults_effect w))"

definition mount :: "localStorage \<Rightarrow> string \<Rightarrow> world" where
  "mount ls path = loadUser (axios_defaults_effect (initial ls path))"

text \<open>
  \<^verbatim>\<open>loadUser\<close> after its \<^verbatim>\<open>await\<close>, when a profile request in flight comes back:
  \<^verbatim>\<open>setUser(userData)\<close> on success, \<^verbatim>\<open>setToken(null)\<close> in the \<^verbatim>\<open>catch\<close>, then
  \<^verbatim>\<open>setLoading(false)\<close>; the component renders again. The continuation does not
  look at which token the request carried.
\<close>

definition loadUser_resume :: "jsuser axios_outcome \<Rightarrow> world \<Rightarrow> world" where
  "loadUser_resume res w =
     (if pending w = 0 then w
      else commit (token w)
             (case res of
                Fulfilled userData \<Rightarrow> w\<lparr>pending := pending w - 1, user := userData, loading := False\<rparr>
              | Failed e \<Rightarrow> w\<lparr>pending := pending w - 1, token := None, loading := False\<rparr>))"

definition handleAuthResponse :: "auth_response \<Rightarrow> world \<Rightarrow> world" where
  "handleAuthResponse response w = w\<lparr>token := resp_token response, user := resp_user response\<rparr>"

text \<open>
  \<^verbatim>\<open>login\<close>: \<^verbatim>\<open>setLoading(true); setError(null)\<close>, await the collaborator,
  \<^verbatim>\<open>handleAuthResponse\<close>; the \<^verbatim>\<open>catch\<close> sets and rethrows the message, the
  \<^verbatim>\<open>finally\<close> sets \<^verbatim>\<open>loading\<close> to false. A \<^verbatim>\<open>null\<close> body makes
  \<^verbatim>\<open>handleAuthResponse\<close> throw a \<^verbatim>\<open>TypeError\<close> inside the \<^verbatim>\<open>try\<close>; it has no
  \<^verbatim>\<open>response\<close>, so the \<^verbatim>\<open>catch\<close> falls back to the generic message. The result
  is the state after the render that follows, and what the promise settles with.
\<close>

definition login ::
  "string \<Rightarrow> string \<Rightarrow> auth_response option axios_outcome \<Rightarrow> world \<Rightarrow> world \<times> (error + unit)" where
  "login em password res w =
     (let w1 = w\<lparr>loading := True, error := None\<rparr> in
      case res of
        Fulfilled (Some response) \<Rightarrow>
          (commit (token w) ((handleAuthResponse response w1)\<lparr>loading := False\<rparr>), Inr ())
      | Fulfilled None \<Rightarrow>
          (w1\<lparr>error := Some ''Login failed'', loading := False\<rparr>, Inl (Error ''Login failed''))
      | Failed err \<Rightarrow>
          (let errorMessage = or_else (response_data_message err) ''Login failed'' in
           (w1\<lparr>error := Some errorMessage, loading := False\<rparr>, Inl (Error errorMessage))))"

text \<open>\<^verbatim>\<open>register\<close> is the same function over the registration collaborator, with its own generic message.\<close>

definition register ::
  "string \<Rightarrow> string \<Rightarrow> auth_response option axios_outcome \<Rightarrow> world \<Rightarrow> world \<times> (error + unit)" where
  "register em password res w =
     (let w1 = w\<lparr>loading := True, error := None\<rparr> in
      case res of
        Fulfilled (Some response) \<Rightarrow>
          (commit (token w) ((handleAuthResponse response w1)\<lparr>loading := False\<rparr>), Inr ())
      | Fulfilled None \<Rightarrow>
          (w1\<lparr>error := Some ''Registration failed'', loading := False\<rparr>,
           Inl (Error ''Registration failed''))
      | Failed err \<Rightarrow>
          (let errorMessage = or_else (response_data_message err) ''Registration failed'' in
           (w1\<lparr>error := Some errorMessage, loading := False\<rparr>, Inl (Error errorMessage))))"

text \<open>
  \<^verbatim>\<open>logout\<close> of the context: \<^verbatim>\<open>setToken(null); setUser(null);
  localStorage.removeItem('token')\<close>, and the render that follows. It does not touch
  the route.
\<close>

definition logout :: "world \<Rightarrow> world" where
  "logout w =
     commit (token w) (w\<lparr>token := None, user := Null, storage := (storage w)\<lparr>token_item := None\<rparr>\<rparr>)"

definition navigate :: "string \<Rightarrow> world \<Rightarrow> world" where
  "navigate path w = w\<lparr>location := path\<rparr>"

text \<open>
  \<^verbatim>\<open>handleLogout\<close> of the layout, the caller of the context's \<^verbatim>\<open>logout\<close>:
  \<^verbatim>\<open>logout(); navigate('/login')\<close> (closing the menu first, which is not session
  state).
\<close>

definition handleLogout :: "world \<Rightarrow> world" where
  "handleLogout w = navigate ''/login'' (logout w)"

subsection \<open>Runs\<close>

datatype event =
    Login string string "auth_response option axios_outcome"
  | Register string string "auth_response option axios_outcome"
  | Logout
  | ProfileDone "jsuser axios_outcome"

fun step :: "world \<Rightarrow> event \<Rightarrow> world" where
  "step w (Login em pw res) = fst (login em pw res w)"
| "step w (Register em pw res) = fst (register em pw res w)"
| "step w Logout = logout w"
| "step w (ProfileDone res) = loadUser_resume res w"

definition run :: "localStorage \<Rightarrow> string \<Rightarrow> event list \<Rightarrow> world" where
  "run ls path evs = foldl step (mount ls path) evs"

subsection \<open>The hook\<close>

text \<open>
  \<^verbatim>\<open>useContext\<close> returns the value of the nearest enclosing provider, and the
  default of \<^verbatim>\<open>createContext\<close> (here \<^verbatim>\<open>undefined\<close>) when there is none. The
  ancestors of the calling component are listed from the nearest outwards.
\<close>

datatype 'v ancestor = Provider 'v | Element

fun useContext :: "'v ancestor list \<Rightarrow> 'v option" where
  "useContext [] = None"
| "useContext (Provider v # ancestors) = Some v"
| "useContext (Element # ancestors) = useContext ancestors"

definition useAuth :: "'v ancestor list \<Rightarrow> error + 'v" where
  "useAuth ancestors =
     (case useContext ancestors of
        None \<Rightarrow> Inl (Error ''useAuth must be used within an AuthProvider'')
      | Some ctx \<Rightarrow> Inr ctx)"

section \<open>The standalone module's operations on the page\<close>

text \<open>
  \<^verbatim>\<open>logout\<close> of auth.ts: remove both keys, then \<^verbatim>\<open>navigate('/login')\<close> when a
  \<^verbatim>\<open>navigate\<close> function was passed, \<^verbatim>\<open>window.location.href = '/login'\<close> otherwise.
\<close>

definition logout_module :: "bool \<Rightarrow> world \<Rightarrow> world" where
  "logout_module has_navigate w =
     (let w1 = w\<lparr>storage := (storage w)\<lparr>token_item := None, user_item := None\<rparr>\<rparr> in
      if has_navigate then navigate ''/login'' w1 else w1\<lparr>location := ''/login''\<rparr>)"

text \<open>
  \<^verbatim>\<open>fetchUserProfile\<close>: on success store the user (when truthy) under \<^verbatim>\<open>'user'\<close> and
  return it; on any error log it, \<^verbatim>\<open>logout()\<close> and return \<^verbatim>\<open>null\<close>.
\<close>

definition fetchUserProfile :: "jsuser fetch_outcome \<Rightarrow> world \<Rightarrow> world \<times> jsuser" where
  "fetchUserProfile res w =
     (case apiRequest res of
        Inr u \<Rightarrow>
          (case u of
             Rec r \<Rightarrow> (w\<lparr>storage := (storage w)\<lparr>user_item := Some (JSON_stringify u)\<rparr>\<rparr>, u)
           | _ \<Rightarrow> (w, u))
      | Inl e \<Rightarrow> (logout_module False w, Null))"

section \<open>Sample values\<close>

text \<open>The concrete users, payloads and storage that the examples below are run on.\<close>

abbreviation plain_user :: user_rec where
  "plain_user \<equiv> \<lparr>uid = 1, email = ''a@b.com'', credits = 5, is_admin = False\<rparr>"

abbreviation admin_user :: user_rec where
  "admin_user \<equiv> \<lparr>uid = 1, email = ''root@b.com'', credits = 0, is_admin = True\<rparr>"

abbreviation plain_payload :: auth_response where
  "plain_payload \<equiv> \<lparr>resp_token = Some ''tok1'', resp_user = Rec plain_user\<rparr>"

abbreviation admin_payload :: auth_response where
  "admin_payload \<equiv> \<lparr>resp_token = Some ''tok1'', resp_user = Rec admin_user\<rparr>"

abbreviation tokenless_payload :: auth_response where
  "tokenless_payload \<equiv> \<lparr>resp_token = Some [], resp_user = Rec plain_user\<rparr>"

abbreviation stored_tok1 :: localStorage where
  "stored_tok1 \<equiv> \<lparr>token_item = Some ''tok1'', user_item = None\<rparr>"

section \<open>What stays in step with the token\<close>

text \<open>
  After every render the stored token and the default header of axios agree with the
  token of the session: both hold it when it is truthy and neither exists otherwise;
  and with a truthy token the last profile request sent carried it.
\<close>

definition synced :: "world \<Rightarrow> bool" where
  "synced w =
     (case token w of
        None \<Rightarrow> token_item (storage w) = None \<and> axios_authorization w = None
      | Some t \<Rightarrow>
          if t \<noteq> []
          then token_item (storage w) = Some t \<and> axios_authorization w = Some (''Bearer '' @ t)
               \<and> requests w \<noteq> [] \<and> last (requests w) = getCurrentUser_request t
          else token_item (storage w) = None \<and> axios_authorization w = None)"

section \<open>Properties of a render\<close>

lemma token_commit: "token (commit prev w) = token w"
  by (simp add: commit_def loadUser_def axios_defaults_effect_def split: option.splits)

lemma user_commit: "user (commit prev w) = user w"
  by (simp add: commit_def loadUser_def axios_defaults_effect_def split: option.splits)

lemma location_commit: "location (commit prev w) = location w"
  by (simp add: commit_def loadUser_def axios_defaults_effect_def split: option.splits)

lemma synced_effects: "synced (loadUser (axios_defaults_effect w))"
  by (simp add: synced_def loadUser_def axios_defaults_effect_def split: option.splits)

lemma synced_mount: "synced (mount ls path)"
  unfolding mount_def by (rule synced_effects)

text \<open>
  A render either re-runs the effects, which restore agreement whatever the state was,
  or has the token of the previous render, where agreement must come from before.
\<close>

lemma synced_commit:
  "(token w = prev \<Longrightarrow> synced w) \<Longrightarrow> synced (commit prev w)"
  by (simp add: commit_def synced_effects)

lemma synced_cong:
  "token w' = token w \<Longrightarrow> token_item (storage w') = token_item (storage w)
   \<Longrightarrow> axios_authorization w' = axios_authorization w \<Longrightarrow> requests w' = requests w
   \<Longrightarrow> synced w \<Longrightarrow> synced w'"
  by (simp add: synced_def split: option.splits)

lemma synced_handleAuthResponse:
  assumes "synced w"
  shows "synced (commit (token w)
            ((handleAuthResponse r (w\<lparr>loading := True, error := None\<rparr>))\<lparr>loading := False\<rparr>))"
proof (rule synced_commit)
  assume "token ((handleAuthResponse r (w\<lparr>loading := True, error := None\<rparr>))\<lparr>loading := False\<rparr>)
            = token w"
  then show "synced ((handleAuthResponse r (w\<lparr>loading := True, error := None\<rparr>))\<lparr>loading := False\<rparr>)"
    by (intro synced_cong [OF _ _ _ _ assms]) (simp_all add: handleAuthResponse_def)
qed

lemma synced_rejected:
  assumes "synced w"
  shows "synced (w\<lparr>loading := True, error := None, error := Some msg, loading := False\<rparr>)"
  by (rule synced_cong [OF _ _ _ _ assms]) simp_all

lemma synced_login:
  assumes "synced w"
  shows "synced (fst (login em pw res w))"
  using synced_handleAuthResponse [OF assms] synced_rejected [OF assms]
  by (simp add: login_def Let_def split: axios_outcome.splits option.splits)

lemma synced_register:
  assumes "synced w"
  shows "synced (fst (register em pw res w))"
  using synced_handleAuthResponse [OF assms] synced_rejected [OF assms]
  by (simp add: register_def Let_def split: axios_outcome.splits option.splits)

lemma synced_logout:
  assumes "synced w"
  shows "synced (logout w)"
  unfolding logout_def
proof (rule synced_commit)
  assume "token (w\<lparr>token := None, user := Null, storage := (storage w)\<lparr>token_item := None\<rparr>\<rparr>) = token w"
  then have "token w = None" by simp
  with assms show "synced (w\<lparr>token := None, user := Null, storage := (storage w)\<lparr>token_item := None\<rparr>\<rparr>)"
    by (simp add: synced_def)
qed

lemma synced_resume:
  assumes "synced w"
  shows "synced (loadUser_resume res w)"
proof (cases "pending w = 0")
  case True
  with assms show ?thesis by (simp add: loadUser_resume_def)
next
  case False
  show ?thesis
  proof (cases res)
    case (Fulfilled userData)
    have "synced (commit (token w) (w\<lparr>pending := pending w - 1, user := userData, loading := False\<rparr>))"
      by (rule synced_commit, rule synced_cong [OF _ _ _ _ assms]) simp_all
    with False Fulfilled show ?thesis by (simp add: loadUser_resume_def)
  next
    case (Failed e)
    have "synced (commit (token w) (w\<lparr>pending := pending w - 1, token := None, loading := False\<rparr>))"
    proof (rule synced_commit)
      assume "token (w\<lparr>pending := pending w - 1, token := None, loading := False\<rparr>) = token w"
      then have "token w = None" by simp
      with assms show "synced (w\<lparr>pending := pending w - 1, token := None, loading := False\<rparr>)"
        by (simp add: synced_def)
    qed
    with False Failed show ?thesis by (simp add: loadUser_resume_def)
  qed
qed

lemma synced_step: "synced w \<Longrightarrow> synced (step w e)"
  by (cases e) (simp_all add: synced_login synced_register synced_logout synced_resume)

lemma synced_foldl: "synced w \<Longrightarrow> synced (foldl step w evs)"
  by (induction evs arbitrary: w) (simp_all add: synced_step)

lemma synced_run: "synced (run ls path evs)"
  unfolding run_def by (rule synced_foldl) (rule synced_mount)

subsection \<open>The context never writes the key 'user'\<close>

lemma user_item_effects:
  "user_item (storage (loadUser (axios_defaults_effect w))) = user_item (storage w)"
  by (simp add: loadUser_def axios_defaults_effect_def split: option.splits)

lemma user_item_commit: "user_item (storage (commit prev w)) = user_item (storage w)"
  by (simp add: commit_def user_item_effects)

lemma user_item_step: "user_item (storage (step w e)) = user_item (storage w)"
proof (cases e)
  case (Login em pw res)
  then show ?thesis
    by (simp add: login_def Let_def user_item_commit handleAuthResponse_def
        split: axios_outcome.splits option.splits)
next
  case (Register em pw res)
  then show ?thesis
    by (simp add: register_def Let_def user_item_commit handleAuthResponse_def
        split: axios_outcome.splits option.splits)
next
  case Logout
  then show ?thesis by (simp add: logout_def user_item_commit)
next
  case (ProfileDone res)
  then show ?thesis
    by (simp add: loadUser_resume_def user_item_commit split: axios_outcome.splits)
qed

lemma user_item_foldl: "user_item (storage (foldl step w evs)) = user_item (storage w)"
  by (induction evs arbitrary: w) (simp_all add: user_item_step)

lemma user_item_run: "user_item (storage (run ls path evs)) = user_item ls"
  by (simp add: run_def user_item_foldl mount_def user_item_effects initial_def)

lemma useContext_None: "useContext ancestors = None \<longleftrightarrow> (\<forall>v. Provider v \<notin> set ancestors)"
  by (induction ancestors rule: useContext.induct) auto

section \<open>The session invariant\<close>

text \<open>
  The \<^verbatim>\<open>catch\<close> of \<^verbatim>\<open>loadUser\<close> clears the token and nothing else, so whatever user
  the session held stays. At startup that user is \<^verbatim>\<open>null\<close>; after a login it is the
  user of the login response.
\<close>

lemma loadUser_resume_Failed:
  "0 < pending w \<Longrightarrow>
     user (loadUser_resume (Failed err) w) = user w \<and> token (loadUser_resume (Failed err) w) = None"
  by (simp add: loadUser_resume_def user_commit token_commit)

text \<open>
  C1. The invariant that a user is present only if a token is present does not hold in
  every reachable state. Start with empty storage; \<^verbatim>\<open>login\<close> succeeds with token
  \<^verbatim>\<open>tok1\<close> and a user; the change of token sends the profile request; that request
  fails. The session then has the user of the login response and no token.
\<close>

theorem loadUser_catch_leaves_user:
  "user (run empty_storage ''/login''
       [Login ''a@b.com'' ''pw'' (Fulfilled (Some plain_payload)), ProfileDone (Failed NoResponse)]) = Rec plain_user
   \<and> token (run empty_storage ''/login''
       [Login ''a@b.com'' ''pw'' (Fulfilled (Some plain_payload)), ProfileDone (Failed NoResponse)]) = None"
  by (simp add: run_def mount_def initial_def empty_storage_def axios_defaults_effect_def loadUser_def
      login_def handleAuthResponse_def commit_def loadUser_resume_def)

section \<open>The admin query\<close>

text \<open>
  With an admin's record stored under \<^verbatim>\<open>'user'\<close> and no token stored,
  \<^verbatim>\<open>isAdmin()\<close> is true although \<^verbatim>\<open>isAuthenticated()\<close> is false.
\<close>

theorem isAdmin_without_token_counterexample:
  "isAdmin \<lparr>token_item = None, user_item = Some (Text_record admin_user)\<rparr> = Inr True
   \<and> \<not> isAuthenticated \<lparr>token_item = None, user_item = Some (Text_record admin_user)\<rparr>"
  by (simp add: isAdmin_def getCurrentUser_def JSON_parse_def isAuthenticated_def getToken_def truthy_def)

text \<open>A stored text that is not JSON makes the query throw instead of answering.\<close>

lemma isAdmin_unparseable:
  "isAdmin \<lparr>token_item = t, user_item = Some Text_undefined\<rparr> = Inl SyntaxError"
  by (simp add: isAdmin_def getCurrentUser_def JSON_parse_def)

text \<open>
  Such a storage arises when the module saved a login and the context then logs out:
  the context removes the key \<^verbatim>\<open>'token'\<close> only.
\<close>

lemma stale_user_after_context_logout:
  "storage (logout (mount (saveUser (Some admin_payload) empty_storage) ''/''))
     = \<lparr>token_item = None, user_item = Some (Text_record admin_user)\<rparr>"
  by (simp add: saveUser_def truthy_def empty_storage_def JSON_stringify_def logout_def mount_def
      initial_def axios_defaults_effect_def loadUser_def commit_def)

text \<open>
  The module itself writes such a text: \<^verbatim>\<open>saveUser\<close> on a response with a token
  and no \<^verbatim>\<open>user\<close> field stores the text \<^verbatim>\<open>undefined\<close>, after which a token is
  present, no user record exists and \<^verbatim>\<open>isAdmin()\<close> throws.
\<close>

lemma isAdmin_after_userless_save:
  "isAdmin (saveUser (Some \<lparr>resp_token = Some ''tok1'', resp_user = Undefined\<rparr>) empty_storage)
     = Inl SyntaxError
   \<and> isAuthenticated (saveUser (Some \<lparr>resp_token = Some ''tok1'', resp_user = Undefined\<rparr>) empty_storage)"
  by (simp add: saveUser_def truthy_def empty_storage_def JSON_stringify_def isAdmin_def
      getCurrentUser_def JSON_parse_def isAuthenticated_def getToken_def)

text \<open>
  C2, as amended. In every state of the storage, \<^verbatim>\<open>isAdmin()\<close> returns true exactly
  when a user record is stored and its \<^verbatim>\<open>is_admin\<close> flag is true; the token is not
  consulted, so in the states where a stored user comes with a stored token this is:
  the token is present and the user is an admin. It returns false, not an error,
  exactly when nothing is stored under \<^verbatim>\<open>'user'\<close>, or \<^verbatim>\<open>null\<close> is stored there, or
  the stored record's flag is false, whatever the token; in particular whenever
  \<^verbatim>\<open>getCurrentUser()\<close> is \<^verbatim>\<open>null\<close>. It fails to answer in one kind of state only,
  a stored text that is not JSON (the text \<^verbatim>\<open>undefined\<close>), where it throws a
  \<^verbatim>\<open>SyntaxError\<close>.
\<close>

theorem isAdmin_reads_stored_user:
  "(isAdmin ls = Inr True \<longleftrightarrow> (\<exists>u. user_item ls = Some (Text_record u) \<and> is_admin u))
   \<and> (user_item ls = None \<longrightarrow> isAdmin ls = Inr False)
   \<and> ((user_item ls \<noteq> None \<longrightarrow> isAuthenticated ls) \<longrightarrow>
        (isAdmin ls = Inr True \<longleftrightarrow>
           isAuthenticated ls \<and> (\<exists>u. user_item ls = Some (Text_record u) \<and> is_admin u)))
   \<and> (isAdmin ls = Inr False \<longleftrightarrow>
        user_item ls = None \<or> user_item ls = Some Text_null
        \<or> (\<exists>u. user_item ls = Some (Text_record u) \<and> \<not> is_admin u))
   \<and> (getCurrentUser ls = Inr Null \<longrightarrow> isAdmin ls = Inr False)
   \<and> ((\<exists>e. isAdmin ls = Inl e) \<longleftrightarrow> user_item ls = Some Text_undefined)
   \<and> (isAdmin ls = Inl SyntaxError \<longleftrightarrow> user_item ls = Some Text_undefined)"
proof -
  have a: "isAdmin ls = Inr True \<longleftrightarrow> (\<exists>u. user_item ls = Some (Text_record u) \<and> is_admin u)"
    by (auto simp: isAdmin_def getCurrentUser_def JSON_parse_def split: option.splits user_text.splits)
  have b: "user_item ls = None \<longrightarrow> isAdmin ls = Inr False"
    by (simp add: isAdmin_def getCurrentUser_def)
  have c: "(user_item ls \<noteq> None \<longrightarrow> isAuthenticated ls) \<longrightarrow>
        (isAdmin ls = Inr True \<longleftrightarrow>
           isAuthenticated ls \<and> (\<exists>u. user_item ls = Some (Text_record u) \<and> is_admin u))"
    using a by auto
  have d: "isAdmin ls = Inr False \<longleftrightarrow>
        user_item ls = None \<or> user_item ls = Some Text_null
        \<or> (\<exists>u. user_item ls = Some (Text_record u) \<and> \<not> is_admin u)"
    by (auto simp: isAdmin_def getCurrentUser_def JSON_parse_def split: option.splits user_text.splits)
  have e: "getCurrentUser ls = Inr Null \<longrightarrow> isAdmin ls = Inr False"
    by (simp add: isAdmin_def)
  have f: "(\<exists>e. isAdmin ls = Inl e) \<longleftrightarrow> user_item ls = Some Text_undefined"
    by (auto simp: isAdmin_def getCurrentUser_def JSON_parse_def split: option.splits user_text.splits)
  have g: "isAdmin ls = Inl SyntaxError \<longleftrightarrow> user_item ls = Some Text_undefined"
    by (auto simp: isAdmin_def getCurrentUser_def JSON_parse_def split: option.splits user_text.splits)
  from a b c d e f g show ?thesis by blast
qed

theorem isAdmin_reads_stored_user_witness:
  "isAdmin stored_tok1 = Inr False
   \<and> isAdmin \<lparr>token_item = Some ''tok1'', user_item = Some (Text_record admin_user)\<rparr> = Inr True
   \<and> isAuthenticated \<lparr>token_item = Some ''tok1'', user_item = Some (Text_record admin_user)\<rparr>
   \<and> isAdmin \<lparr>token_item = Some ''tok1'', user_item = Some Text_null\<rparr> = Inr False
   \<and> isAdmin \<lparr>token_item = Some ''tok1'', user_item = Some (Text_record plain_user)\<rparr> = Inr False
   \<and> isAdmin \<lparr>token_item = Some ''tok1'', user_item = Some Text_undefined\<rparr> = Inl SyntaxError"
  using isAdmin_reads_stored_user [of "stored_tok1"]
    isAdmin_reads_stored_user [of "\<lparr>token_item = Some ''tok1'', user_item = Some (Text_record admin_user)\<rparr>"]
    isAdmin_reads_stored_user [of "\<lparr>token_item = Some ''tok1'', user_item = Some Text_null\<rparr>"]
    isAdmin_reads_stored_user [of "\<lparr>token_item = Some ''tok1'', user_item = Some (Text_record plain_user)\<rparr>"]
    isAdmin_reads_stored_user [of "\<lparr>token_item = Some ''tok1'', user_item = Some Text_undefined\<rparr>"]
  by (simp add: isAuthenticated_def getToken_def truthy_def)

section \<open>Login\<close>

text \<open>
  C3. For every failure of the login collaborator, \<^verbatim>\<open>login\<close> leaves the token, the
  user and the storage as they were and rejects with a non-empty message, which is
  also recorded as the session's error: the \<^verbatim>\<open>message\<close> of the payload when it has a
  non-empty one, the generic \<^verbatim>\<open>Login failed\<close> otherwise. The module's
  \<^verbatim>\<open>loginUser\<close> on a response that is not \<^verbatim>\<open>ok\<close> likewise leaves the storage alone
  and rejects with the payload's message or its own generic one.
\<close>

theorem login_failure_atomic:
  "token (fst (login em pw (Failed err) w)) = token w
   \<and> user (fst (login em pw (Failed err) w)) = user w
   \<and> storage (fst (login em pw (Failed err) w)) = storage w
   \<and> (\<exists>msg. snd (login em pw (Failed err) w) = Inl (Error msg) \<and> msg \<noteq> []
        \<and> error (fst (login em pw (Failed err) w)) = Some msg
        \<and> (\<forall>m. response_data_message err = Some m \<and> m \<noteq> [] \<longrightarrow> msg = m)
        \<and> (response_data_message err = None \<or> response_data_message err = Some []
              \<longrightarrow> msg = ''Login failed''))
   \<and> fst (loginUser em pw (NotOk payload_message) ls) = ls
   \<and> (\<exists>msg. snd (loginUser em pw (NotOk payload_message) ls) = Inl (Error msg) \<and> msg \<noteq> []
        \<and> (\<forall>m. payload_message = Some m \<and> m \<noteq> [] \<longrightarrow> msg = m)
        \<and> (payload_message = None \<or> payload_message = Some []
              \<longrightarrow> msg = ''Something went wrong''))"
  by (auto simp: login_def Let_def or_else_def loginUser_def apiRequest_def
      split: option.splits)

theorem login_failure_atomic_witness:
  "snd (login ''a@b.com'' ''bad'' (Failed (ErrorResponse (Some ''Invalid credentials'')))
          (mount empty_storage ''/login''))
     = Inl (Error ''Invalid credentials'')
   \<and> error (fst (login ''a@b.com'' ''bad'' (Failed (ErrorResponse (Some ''Invalid credentials'')))
          (mount empty_storage ''/login'')))
     = Some ''Invalid credentials''
   \<and> token (fst (login ''a@b.com'' ''bad'' (Failed (ErrorResponse (Some ''Invalid credentials'')))
          (mount empty_storage ''/login''))) = None
   \<and> user (fst (login ''a@b.com'' ''bad'' (Failed (ErrorResponse (Some ''Invalid credentials'')))
          (mount empty_storage ''/login''))) = Null
   \<and> snd (login ''a@b.com'' ''bad'' (Failed (ErrorResponse None)) (mount empty_storage ''/login''))
     = Inl (Error ''Login failed'')"
  using login_failure_atomic [of "''a@b.com''" "''bad''" "ErrorResponse (Some ''Invalid credentials'')"
      "mount empty_storage ''/login''"]
    login_failure_atomic [of "''a@b.com''" "''bad''" "ErrorResponse None" "mount empty_storage ''/login''"]
  by (simp add: response_data_message_def mount_def initial_def empty_storage_def
      axios_defaults_effect_def loadUser_def)

text \<open>
  C4. When the login collaborator returns a success payload that carries a token (a
  non-empty string) and a user, then after \<^verbatim>\<open>login\<close>, from any state the session can
  be in, the promise is fulfilled, the session holds that token and the payload's
  user, the token is in durable storage and \<^verbatim>\<open>isAuthenticated()\<close> is true. The
  module's \<^verbatim>\<open>loginUser\<close> likewise returns the payload's user and stores the token
  (and the user).
\<close>

theorem login_success_establishes_session:
  assumes "resp_token r = Some t" and "t \<noteq> []"
  shows "snd (login em pw (Fulfilled (Some r)) (run ls path evs)) = Inr ()
       \<and> token (fst (login em pw (Fulfilled (Some r)) (run ls path evs))) = Some t
       \<and> user (fst (login em pw (Fulfilled (Some r)) (run ls path evs))) = resp_user r
       \<and> token_item (storage (fst (login em pw (Fulfilled (Some r)) (run ls path evs)))) = Some t
       \<and> isAuthenticated (storage (fst (login em pw (Fulfilled (Some r)) (run ls path evs))))
       \<and> snd (loginUser em pw (Ok (Some r)) ls') = Inr (resp_user r)
       \<and> token_item (fst (loginUser em pw (Ok (Some r)) ls')) = Some t
       \<and> isAuthenticated (fst (loginUser em pw (Ok (Some r)) ls'))
       \<and> user_item (fst (loginUser em pw (Ok (Some r)) ls')) = Some (JSON_stringify (resp_user r))"
proof -
  let ?w = "run ls path evs"
  let ?w' = "fst (login em pw (Fulfilled (Some r)) ?w)"
  have res: "snd (login em pw (Fulfilled (Some r)) ?w) = Inr ()"
    by (simp add: login_def)
  have tok: "token ?w' = Some t"
    using assms by (simp add: login_def token_commit handleAuthResponse_def)
  have usr: "user ?w' = resp_user r"
    by (simp add: login_def user_commit handleAuthResponse_def)
  have "synced ?w'"
    by (rule synced_login) (rule synced_run)
  with tok assms have st: "token_item (storage ?w') = Some t"
    by (simp add: synced_def)
  then have au: "isAuthenticated (storage ?w')"
    using assms by (simp add: isAuthenticated_def getToken_def truthy_def)
  have m: "snd (loginUser em pw (Ok (Some r)) ls') = Inr (resp_user r)
       \<and> token_item (fst (loginUser em pw (Ok (Some r)) ls')) = Some t
       \<and> isAuthenticated (fst (loginUser em pw (Ok (Some r)) ls'))
       \<and> user_item (fst (loginUser em pw (Ok (Some r)) ls')) = Some (JSON_stringify (resp_user r))"
    using assms
    by (simp add: loginUser_def apiRequest_def saveUser_def truthy_def isAuthenticated_def getToken_def)
  from res tok usr st au m show ?thesis by simp
qed

theorem login_success_establishes_session_witness:
  "resp_token plain_payload = Some ''tok1'' \<and> ''tok1'' \<noteq> []
   \<and> token (fst (login ''a@b.com'' ''pw'' (Fulfilled (Some plain_payload)) (run empty_storage ''/login'' [])))
       = Some ''tok1''
   \<and> user (fst (login ''a@b.com'' ''pw'' (Fulfilled (Some plain_payload)) (run empty_storage ''/login'' [])))
       = Rec plain_user
   \<and> token_item (storage (fst (login ''a@b.com'' ''pw'' (Fulfilled (Some plain_payload))
       (run empty_storage ''/login'' [])))) = Some ''tok1''"
proof -
  have h1: "resp_token plain_payload = Some ''tok1''"
    by simp
  have h2: "''tok1'' \<noteq> []" by simp
  show ?thesis
    using h1 h2
      login_success_establishes_session [OF h1 h2, of "''a@b.com''" "''pw''" empty_storage "''/login''" "[]"]
    by simp
qed

section \<open>Restoring a session\<close>

text \<open>
  C5. When storage holds a token and the profile collaborator rejects it, with any
  error, the restore at startup ends fully logged out: no token, no user, no stored
  token, no default header, \<^verbatim>\<open>loading\<close> false, no error recorded; exactly one
  profile request was sent and none is in flight. The operation returns a state, it
  has no failing branch. The module's \<^verbatim>\<open>fetchUserProfile\<close> on any failure likewise
  returns \<^verbatim>\<open>null\<close> and leaves neither key in storage.
\<close>

theorem restore_rejected_logs_out:
  assumes "token_item ls = Some t" and "t \<noteq> []"
  shows "token (loadUser_resume (Failed err) (mount ls path)) = None
       \<and> user (loadUser_resume (Failed err) (mount ls path)) = Null
       \<and> token_item (storage (loadUser_resume (Failed err) (mount ls path))) = None
       \<and> axios_authorization (loadUser_resume (Failed err) (mount ls path)) = None
       \<and> \<not> loading (loadUser_resume (Failed err) (mount ls path))
       \<and> error (loadUser_resume (Failed err) (mount ls path)) = None
       \<and> requests (loadUser_resume (Failed err) (mount ls path)) = [getCurrentUser_request t]
       \<and> pending (loadUser_resume (Failed err) (mount ls path)) = 0
       \<and> snd (fetchUserProfile (NotOk m) w) = Null
       \<and> snd (fetchUserProfile (NetworkFailure n) w) = Null
       \<and> storage (fst (fetchUserProfile (NotOk m) w)) = empty_storage
       \<and> storage (fst (fetchUserProfile (NetworkFailure n) w)) = empty_storage"
  using assms
  by (simp add: loadUser_resume_def mount_def initial_def axios_defaults_effect_def loadUser_def
      commit_def fetchUserProfile_def apiRequest_def logout_module_def empty_storage_def)

theorem restore_rejected_logs_out_witness:
  "token_item stored_tok1 = Some ''tok1'' \<and> ''tok1'' \<noteq> []
   \<and> token (loadUser_resume (Failed (ErrorResponse (Some ''Unauthorized''))) (mount stored_tok1 ''/'')) = None
   \<and> user (loadUser_resume (Failed (ErrorResponse (Some ''Unauthorized''))) (mount stored_tok1 ''/'')) = Null
   \<and> token_item (storage (loadUser_resume (Failed (ErrorResponse (Some ''Unauthorized'')))
        (mount stored_tok1 ''/''))) = None
   \<and> \<not> loading (loadUser_resume (Failed (ErrorResponse (Some ''Unauthorized''))) (mount stored_tok1 ''/''))"
proof -
  have h1: "token_item stored_tok1 = Some ''tok1''" by simp
  have h2: "''tok1'' \<noteq> []" by simp
  show ?thesis
    using h1 h2 restore_rejected_logs_out [OF h1 h2, of "ErrorResponse (Some ''Unauthorized'')" "''/''"]
    by simp
qed

section \<open>What is persisted\<close>

text \<open>
  The module's \<^verbatim>\<open>saveUser\<close> writes the user profile under a second key, from which
  \<^verbatim>\<open>getCurrentUser\<close> reads it back without asking the collaborator.
\<close>

theorem saveUser_persists_profile_counterexample:
  "user_item (saveUser (Some plain_payload) empty_storage) = Some (Text_record plain_user)
   \<and> getCurrentUser (saveUser (Some plain_payload) empty_storage) = Inr (Rec plain_user)"
  by (simp add: saveUser_def truthy_def empty_storage_def JSON_stringify_def getCurrentUser_def
      JSON_parse_def)

text \<open>
  C6, as amended. The context-based session writes only the key \<^verbatim>\<open>'token'\<close>: no run
  of it changes the key \<^verbatim>\<open>'user'\<close>, so from empty storage that key never exists. It
  starts with no user and, on a stored truthy token, sends one profile request with
  that token and takes the user from the collaborator's answer. The standalone module
  does persist the profile: \<^verbatim>\<open>saveUser\<close> with a truthy token stores the user's JSON
  text under \<^verbatim>\<open>'user'\<close>.
\<close>

theorem context_persists_token_only:
  "user_item (storage (run ls path evs)) = user_item ls
   \<and> user_item (storage (run empty_storage path evs)) = None
   \<and> user (mount ls path) = Null
   \<and> (token_item ls = Some t \<and> t \<noteq> [] \<longrightarrow>
        requests (mount ls path) = [getCurrentUser_request t]
        \<and> pending (mount ls path) = 1
        \<and> user (loadUser_resume (Fulfilled u) (mount ls path)) = u)
   \<and> (truthy (resp_token r) \<longrightarrow>
        user_item (saveUser (Some r) ls) = Some (JSON_stringify (resp_user r)))"
proof -
  have a: "user_item (storage (run ls path evs)) = user_item ls" by (rule user_item_run)
  have b: "user_item (storage (run empty_storage path evs)) = None"
    by (simp add: user_item_run empty_storage_def)
  have c: "user (mount ls path) = Null"
    by (simp add: mount_def initial_def axios_defaults_effect_def loadUser_def split: option.splits)
  have d: "token_item ls = Some t \<and> t \<noteq> [] \<longrightarrow>
        requests (mount ls path) = [getCurrentUser_request t]
        \<and> pending (mount ls path) = 1
        \<and> user (loadUser_resume (Fulfilled u) (mount ls path)) = u"
    by (simp add: mount_def initial_def axios_defaults_effect_def loadUser_def loadUser_resume_def
        commit_def)
  have e: "truthy (resp_token r) \<longrightarrow>
        user_item (saveUser (Some r) ls) = Some (JSON_stringify (resp_user r))"
    by (simp add: saveUser_def truthy_def split: option.splits)
  from a b c d e show ?thesis by blast
qed

theorem context_persists_token_only_witness:
  "token_item stored_tok1 = Some ''tok1'' \<and> ''tok1'' \<noteq> []
   \<and> requests (mount stored_tok1 ''/'') = [getCurrentUser_request ''tok1'']
   \<and> user (loadUser_resume (Fulfilled (Rec plain_user)) (mount stored_tok1 ''/'')) = Rec plain_user
   \<and> truthy (resp_token \<lparr>resp_token = Some ''tok1'', resp_user = Null\<rparr>)
   \<and> user_item (saveUser (Some \<lparr>resp_token = Some ''tok1'', resp_user = Null\<rparr>) stored_tok1) = Some Text_null"
  using context_persists_token_only [of "stored_tok1" "''/''" "[]" "''tok1''" "Rec plain_user"
      "\<lparr>resp_token = Some ''tok1'', resp_user = Null\<rparr>"]
  by (simp add: truthy_def JSON_stringify_def)

section \<open>The outbound credential\<close>

text \<open>
  C7. In every state the context-based session reaches, the default credential
  follows the token: with a truthy token the default \<^verbatim>\<open>Authorization\<close> header of
  axios is \<^verbatim>\<open>Bearer\<close> and that token, storage holds the token, a request built by
  \<^verbatim>\<open>apiRequest\<close> with no headers from its caller carries the same header, and so did
  the last profile request sent; without a truthy token the default header is
  removed, storage holds no token and \<^verbatim>\<open>apiRequest\<close> sends no \<^verbatim>\<open>Authorization\<close>.
\<close>

theorem default_credential_follows_token:
  "(token (run ls path evs) = Some t \<and> t \<noteq> [] \<longrightarrow>
       axios_authorization (run ls path evs) = Some (''Bearer '' @ t)
     \<and> token_item (storage (run ls path evs)) = Some t
     \<and> apiRequest_headers (storage (run ls path evs)) Map.empty ''Authorization''
         = Some (''Bearer '' @ t)
     \<and> authorization (last (requests (run ls path evs))) = Some (''Bearer '' @ t))
   \<and> (\<not> truthy (token (run ls path evs)) \<longrightarrow>
       axios_authorization (run ls path evs) = None
     \<and> token_item (storage (run ls path evs)) = None
     \<and> apiRequest_headers (storage (run ls path evs)) Map.empty ''Authorization'' = None)"
proof -
  have s: "synced (run ls path evs)" by (rule synced_run)
  have a: "token (run ls path evs) = Some t \<and> t \<noteq> [] \<longrightarrow>
       axios_authorization (run ls path evs) = Some (''Bearer '' @ t)
     \<and> token_item (storage (run ls path evs)) = Some t
     \<and> apiRequest_headers (storage (run ls path evs)) Map.empty ''Authorization''
         = Some (''Bearer '' @ t)
     \<and> authorization (last (requests (run ls path evs))) = Some (''Bearer '' @ t)"
    using s by (auto simp: synced_def apiRequest_headers_def getCurrentUser_request_def)
  have b: "\<not> truthy (token (run ls path evs)) \<longrightarrow>
       axios_authorization (run ls path evs) = None
     \<and> token_item (storage (run ls path evs)) = None
     \<and> apiRequest_headers (storage (run ls path evs)) Map.empty ''Authorization'' = None"
    using s by (auto simp: synced_def truthy_def apiRequest_headers_def split: option.splits)
  from a b show ?thesis by blast
qed

theorem default_credential_follows_token_witness:
  "token (run empty_storage ''/login'' [Login ''a@b.com'' ''pw'' (Fulfilled (Some plain_payload))]) = Some ''tok1''
   \<and> ''tok1'' \<noteq> []
   \<and> axios_authorization (run empty_storage ''/login'' [Login ''a@b.com'' ''pw'' (Fulfilled (Some plain_payload))])
       = Some ''Bearer tok1''
   \<and> \<not> truthy (token (run empty_storage ''/login''
         [Login ''a@b.com'' ''pw'' (Fulfilled (Some plain_payload)), Logout]))
   \<and> axios_authorization (run empty_storage ''/login''
         [Login ''a@b.com'' ''pw'' (Fulfilled (Some plain_payload)), Logout]) = None"
proof -
  have h1: "token (run empty_storage ''/login'' [Login ''a@b.com'' ''pw'' (Fulfilled (Some plain_payload))])
              = Some ''tok1''"
    by (simp add: run_def mount_def initial_def empty_storage_def axios_defaults_effect_def loadUser_def
        login_def handleAuthResponse_def commit_def)
  have h2: "\<not> truthy (token (run empty_storage ''/login''
         [Login ''a@b.com'' ''pw'' (Fulfilled (Some plain_payload)), Logout]))"
    by (simp add: run_def mount_def initial_def empty_storage_def axios_defaults_effect_def loadUser_def
        login_def handleAuthResponse_def commit_def logout_def truthy_def)
  show ?thesis
    using h1 h2
      default_credential_follows_token [of empty_storage "''/login''"
        "[Login ''a@b.com'' ''pw'' (Fulfilled (Some plain_payload))]" "''tok1''"]
      default_credential_follows_token [of empty_storage "''/login''"
        "[Login ''a@b.com'' ''pw'' (Fulfilled (Some plain_payload)), Logout]" "''tok1''"]
    by simp
qed

section \<open>Logout\<close>

text \<open>
  The context's \<^verbatim>\<open>logout\<close> leaves the route where it was: called on the billing page
  of a restored session, the route is still the billing page afterwards.
\<close>

theorem context_logout_no_navigation_counterexample:
  "location (logout (mount stored_tok1 ''/billing'')) = ''/billing''
   \<and> location (logout (mount stored_tok1 ''/billing'')) \<noteq> ''/login''"
  by (simp add: logout_def mount_def initial_def axios_defaults_effect_def loadUser_def commit_def)

text \<open>
  C8, as amended. Logout is a total, unconditional operation: from any state, after
  the context's \<^verbatim>\<open>logout\<close> the session has no token and no user, storage holds no
  token and \<^verbatim>\<open>isAuthenticated()\<close> is false; it leaves the route unchanged, and its
  caller \<^verbatim>\<open>handleLogout\<close> moves to \<^verbatim>\<open>/login\<close> right after it. The module's
  \<^verbatim>\<open>logout\<close> removes both keys, after which \<^verbatim>\<open>isAuthenticated()\<close> is false and
  \<^verbatim>\<open>getCurrentUser()\<close> is \<^verbatim>\<open>null\<close>, and itself moves to \<^verbatim>\<open>/login\<close>, with or without
  a \<^verbatim>\<open>navigate\<close> function.
\<close>

theorem logout_clears_session:
  "token (logout w) = None \<and> user (logout w) = Null
   \<and> token_item (storage (logout w)) = None \<and> \<not> isAuthenticated (storage (logout w))
   \<and> location (logout w) = location w
   \<and> token (handleLogout w) = None \<and> user (handleLogout w) = Null
   \<and> token_item (storage (handleLogout w)) = None \<and> \<not> isAuthenticated (storage (handleLogout w))
   \<and> location (handleLogout w) = ''/login''
   \<and> storage (logout_module has_navigate w) = empty_storage
   \<and> \<not> isAuthenticated (storage (logout_module has_navigate w))
   \<and> getCurrentUser (storage (logout_module has_navigate w)) = Inr Null
   \<and> location (logout_module has_navigate w) = ''/login''"
proof -
  have t: "token (logout w) = None" by (simp add: logout_def token_commit)
  have u: "user (logout w) = Null" by (simp add: logout_def user_commit)
  have l: "location (logout w) = location w" by (simp add: logout_def location_commit)
  have s: "token_item (storage (logout w)) = None"
    by (simp add: logout_def commit_def axios_defaults_effect_def loadUser_def)
  then have a: "\<not> isAuthenticated (storage (logout w))"
    by (simp add: isAuthenticated_def getToken_def truthy_def)
  have m: "storage (logout_module has_navigate w) = empty_storage
   \<and> \<not> isAuthenticated (storage (logout_module has_navigate w))
   \<and> getCurrentUser (storage (logout_module has_navigate w)) = Inr Null
   \<and> location (logout_module has_navigate w) = ''/login''"
    by (simp add: logout_module_def navigate_def empty_storage_def isAuthenticated_def getToken_def
        truthy_def getCurrentUser_def Let_def)
  from t u l s a m show ?thesis
    by (simp add: handleLogout_def navigate_def isAuthenticated_def getToken_def truthy_def
        getCurrentUser_def empty_storage_def)
qed

theorem logout_clears_session_witness:
  "token (logout (mount stored_tok1 ''/billing'')) = None
   \<and> user (logout (mount stored_tok1 ''/billing'')) = Null
   \<and> token_item (storage (logout (mount stored_tok1 ''/billing''))) = None
   \<and> location (handleLogout (mount stored_tok1 ''/billing'')) = ''/login''
   \<and> location (logout_module False (mount stored_tok1 ''/billing'')) = ''/login''"
  using logout_clears_session [of "mount stored_tok1 ''/billing''" False]
  by simp

section \<open>Frame of saveUser\<close>

text \<open>
  C9. For every auth response whose token is absent or empty, \<^verbatim>\<open>saveUser\<close> leaves
  durable storage exactly as it was (neither key is written), and \<^verbatim>\<open>loginUser\<close> and
  \<^verbatim>\<open>registerUser\<close> still hand the response's user back to the caller.
\<close>

theorem saveUser_falsy_token_frame:
  assumes "\<not> truthy (resp_token r)"
  shows "saveUser (Some r) ls = ls
       \<and> loginUser em pw (Ok (Some r)) ls = (ls, Inr (resp_user r))
       \<and> registerUser em pw (Ok (Some r)) ls = (ls, Inr (resp_user r))"
  using assms by (simp add: saveUser_def loginUser_def registerUser_def apiRequest_def)

theorem saveUser_falsy_token_frame_witness:
  "\<not> truthy (resp_token tokenless_payload)
   \<and> saveUser (Some tokenless_payload) \<lparr>token_item = Some ''old'', user_item = None\<rparr>
       = \<lparr>token_item = Some ''old'', user_item = None\<rparr>
   \<and> loginUser ''a@b.com'' ''pw'' (Ok (Some tokenless_payload)) \<lparr>token_item = Some ''old'', user_item = None\<rparr>
       = (\<lparr>token_item = Some ''old'', user_item = None\<rparr>, Inr (Rec plain_user))"
proof -
  have h: "\<not> truthy (resp_token tokenless_payload)"
    by (simp add: truthy_def)
  show ?thesis
    using h saveUser_falsy_token_frame [OF h, of "\<lparr>token_item = Some ''old'', user_item = None\<rparr>"
        "''a@b.com''" "''pw''"]
    by simp
qed

section \<open>The hook outside a provider\<close>

text \<open>
  C10. Called in a component with no \<^verbatim>\<open>AuthProvider\<close> among its ancestors,
  \<^verbatim>\<open>useAuth\<close> throws the error \<^verbatim>\<open>useAuth must be used within an AuthProvider\<close>; it
  does not return a session.
\<close>

theorem useAuth_outside_provider_throws:
  assumes "\<forall>v. Provider v \<notin> set ancestors"
  shows "useAuth ancestors = Inl (Error ''useAuth must be used within an AuthProvider'')"
  using assms by (simp add: useAuth_def useContext_None [symmetric])

theorem useAuth_outside_provider_throws_witness:
  "(\<forall>v. Provider v \<notin> set [Element, Element :: world ancestor])
   \<and> useAuth [Element, Element :: world ancestor]
       = Inl (Error ''useAuth must be used within an AuthProvider'')"
proof -
  have h: "\<forall>v. Provider v \<notin> set [Element, Element :: world ancestor]" by simp
  show ?thesis using h useAuth_outside_provider_throws [OF h] by simp
qed

text \<open>Inside a provider the hook returns the provider's value.\<close>

lemma useAuth_inside_provider: "useAuth (Element # Provider ctx # ancestors) = Inr ctx"
  by (simp add: useAuth_def)

end
